theory Spec2Isabelle
  imports Main
begin

section \<open>Viseme variant of main.js: data model\<close>

text \<open>
  The first variant of \<^verbatim>\<open>src/main.js\<close> (lines 1 to 208) binds one enum property of
  a view model to a grid of buttons and to the number keys. Its module variables
  (\<^verbatim>\<open>viewModelInstance\<close>, \<^verbatim>\<open>visemeProperty\<close>, \<^verbatim>\<open>currentEnumValues\<close>,
  \<^verbatim>\<open>resetTimer\<close>) are fields of the record \<open>state\<close>, next to the parts of the browser
  they act on: the table of pending timeouts, the document elements the code looks
  up, and the console.

  The runtime and the page markup are not part of the source file, so they are
  parameters: an \<open>asset\<close> says what the loaded file exposes, a \<open>page\<close> says which
  elements the static markup contains.
\<close>

datatype error = TypeError

datatype log_level = LogError | LogWarn | LogInfo

record placeholder_elt =
  ph_innerHTML :: string
  ph_display :: string
  ph_color :: string

record display_elt =
  elt_id :: string
  innerHTML :: string

record enum_button =
  dataset_value :: string
  key_badge :: "nat option"
  btn_text :: string
  active :: bool

record asset =
  has_view_model :: bool
  vm_enum :: "string \<Rightarrow> string option"
  file_enums :: "(string \<times> string list) list option"

record page =
  has_canvas :: bool
  page_placeholder :: "placeholder_elt option"
  has_controls_content :: bool
  has_enums_section :: bool
  has_enums_container :: bool
  has_numbers_section :: bool
  has_triggers_section :: bool
  has_booleans_section :: bool
  timer_seed :: nat

text \<open>
  \<open>timers\<close> is the browser's table of pending timeouts: the handle and the
  milliseconds left. Every timeout this program sets has the same callback,
  \<^verbatim>\<open>resetVisemeToNone\<close>, so the callback is not stored. \<open>visemeProperty\<close> is \<open>None\<close> for
  \<^verbatim>\<open>null\<close> and otherwise holds the value of the property handle. A console entry is
  the level and the arguments of the call.
\<close>

record state =
  viewModelInstance :: bool
  visemeProperty :: "string option"
  currentEnumValues :: "string list"
  resetTimer :: "nat option"
  timers :: "(nat \<times> nat) list"
  nextTimerId :: nat
  placeholder :: "placeholder_elt option"
  controls_content :: bool
  enums_section :: bool
  enums_container :: bool
  currentValueDisplay :: "display_elt option"
  buttons :: "enum_button list"
  numbers_section :: "string option"
  triggers_section :: "string option"
  booleans_section :: "string option"
  console :: "(log_level \<times> string list) list"
  loads_started :: nat

type_synonym result = "(error \<times> state) + state"

definition RESET_DELAY_MS :: nat where
  "RESET_DELAY_MS = 1000"

definition visemesPropertyName :: string where
  "visemesPropertyName = ''visemes''"

definition phonemesEnumName :: string where
  "phonemesEnumName = ''phonemes''"

definition section_of :: "bool \<Rightarrow> string option" where
  "section_of present = (if present then Some [] else None)"

definition init_state :: "page \<Rightarrow> state" where
  "init_state pg =
     \<lparr> viewModelInstance = False, visemeProperty = None, currentEnumValues = [],
       resetTimer = None, timers = [], nextTimerId = Suc (timer_seed pg),
       placeholder = page_placeholder pg,
       controls_content = has_controls_content pg,
       enums_section = has_enums_section pg,
       enums_container = has_enums_container pg,
       currentValueDisplay = None, buttons = [],
       numbers_section = section_of (has_numbers_section pg),
       triggers_section = section_of (has_triggers_section pg),
       booleans_section = section_of (has_booleans_section pg),
       console = [], loads_started = 0 \<rparr>"

text \<open>
  \<^verbatim>\<open>initRive\<close>, run once when the document is ready: without the canvas it returns at
  once, otherwise it constructs the runtime session, which starts loading the asset.
  \<open>loads_started\<close> counts the sessions constructed.
\<close>

definition initRive :: "page \<Rightarrow> state \<Rightarrow> state" where
  "initRive pg s = (if \<not> has_canvas pg then s else s\<lparr>loads_started := Suc (loads_started s)\<rparr>)"

section \<open>Browser primitives\<close>

text \<open>
  \<^verbatim>\<open>setTimeout\<close> hands out a fresh positive handle and files the task;
  \<^verbatim>\<open>clearTimeout\<close> drops the task with that handle, if it is still pending.
\<close>

definition setTimeout :: "nat \<Rightarrow> state \<Rightarrow> nat \<times> state" where
  "setTimeout delay s =
     (nextTimerId s,
      s\<lparr>timers := timers s @ [(nextTimerId s, delay)], nextTimerId := Suc (nextTimerId s)\<rparr>)"

definition clearTimeout :: "nat \<Rightarrow> state \<Rightarrow> state" where
  "clearTimeout h s = s\<lparr>timers := filter (\<lambda>t. fst t \<noteq> h) (timers s)\<rparr>"

text \<open>A timer handle is a number, and \<^verbatim>\<open>if (resetTimer)\<close> is false for \<^verbatim>\<open>null\<close> and for 0.\<close>

fun truthy_handle :: "nat option \<Rightarrow> bool" where
  "truthy_handle None = False"
| "truthy_handle (Some h) = (h \<noteq> 0)"

text \<open>
  \<^verbatim>\<open>parseInt(event.key)\<close> with no radix: leading white space is skipped, one sign is
  read, a prefix \<^verbatim>\<open>0x\<close> selects radix 16, and the longest run of digits is the number;
  no digit at all gives \<^verbatim>\<open>NaN\<close>, here \<open>None\<close>. Strings are held in UTF-8, so the white
  space of the language beyond ASCII (U+00A0, U+1680, U+2000 to U+200A, U+2028, U+2029,
  U+202F, U+205F, U+3000, U+FEFF) is two or three bytes long; \<open>ws_len\<close> is the length
  of the white-space character a string starts with, 0 if it starts with none.
\<close>

definition ascii_ws :: "char list" where
  "ascii_ws = [CHR '' '', CHR 0x09, CHR 0x0A, CHR 0x0B, CHR 0x0C, CHR 0x0D]"

definition wide_ws :: "string list" where
  "wide_ws =
     [[CHR 0xE1, CHR 0x9A, CHR 0x80],
      [CHR 0xE2, CHR 0x80, CHR 0x80], [CHR 0xE2, CHR 0x80, CHR 0x81], [CHR 0xE2, CHR 0x80, CHR 0x82],
      [CHR 0xE2, CHR 0x80, CHR 0x83], [CHR 0xE2, CHR 0x80, CHR 0x84], [CHR 0xE2, CHR 0x80, CHR 0x85],
      [CHR 0xE2, CHR 0x80, CHR 0x86], [CHR 0xE2, CHR 0x80, CHR 0x87], [CHR 0xE2, CHR 0x80, CHR 0x88],
      [CHR 0xE2, CHR 0x80, CHR 0x89], [CHR 0xE2, CHR 0x80, CHR 0x8A],
      [CHR 0xE2, CHR 0x80, CHR 0xA8], [CHR 0xE2, CHR 0x80, CHR 0xA9], [CHR 0xE2, CHR 0x80, CHR 0xAF],
      [CHR 0xE2, CHR 0x81, CHR 0x9F], [CHR 0xE3, CHR 0x80, CHR 0x80], [CHR 0xEF, CHR 0xBB, CHR 0xBF]]"

definition ws_len :: "string \<Rightarrow> nat" where
  "ws_len s =
     (case s of
        [] \<Rightarrow> 0
      | c # r \<Rightarrow>
          if c \<in> set ascii_ws then 1
          else if take 2 s = [CHR 0xC2, CHR 0xA0] then 2
          else if take 3 s \<in> set wide_ws then 3
          else 0)"

function skip_ws :: "string \<Rightarrow> string" where
  "skip_ws s = (if ws_len s = 0 then s else skip_ws (drop (ws_len s) s))"
  by pat_completeness auto
termination
proof (relation "measure length")
  show "wf (measure length)" by simp
next
  fix s :: string
  assume n: "ws_len s \<noteq> 0"
  then have "s \<noteq> []" by (auto simp add: ws_len_def)
  with n show "(drop (ws_len s) s, s) \<in> measure length" by simp
qed

definition digit_val :: "char \<Rightarrow> nat" where
  "digit_val c =
     (let n = (of_char c :: nat)
      in if 48 \<le> n \<and> n \<le> 57 then n - 48
         else if 97 \<le> n \<and> n \<le> 122 then n - 87
         else if 65 \<le> n \<and> n \<le> 90 then n - 55
         else 36)"

definition strip_sign :: "string \<Rightarrow> bool \<times> string" where
  "strip_sign s =
     (case s of
        [] \<Rightarrow> (False, [])
      | c # r \<Rightarrow> if c = CHR ''-'' then (True, r) else if c = CHR ''+'' then (False, r) else (False, s))"

definition strip_prefix :: "string \<Rightarrow> nat \<times> string" where
  "strip_prefix s =
     (case s of
        a # b # r \<Rightarrow> if a = CHR ''0'' \<and> (b = CHR ''x'' \<or> b = CHR ''X'') then (16, r) else (10, s)
      | _ \<Rightarrow> (10, s))"

definition parseInt :: "string \<Rightarrow> int option" where
  "parseInt str =
     (let (neg, s1) = strip_sign (skip_ws str);
          (radix, s2) = strip_prefix s1;
          ds = takeWhile (\<lambda>c. digit_val c < radix) s2;
          n = foldl (\<lambda>a c. a * radix + digit_val c) 0 ds
      in if ds = [] then None else Some (if neg then - int n else int n))"

text \<open>\<^verbatim>\<open>toLowerCase\<close> on ASCII letters.\<close>

definition lower_char :: "char \<Rightarrow> char" where
  "lower_char c =
     (let n = (of_char c :: nat) in if 65 \<le> n \<and> n \<le> 90 then char_of (n + 32) else c)"

definition toLowerCase :: "string \<Rightarrow> string" where
  "toLowerCase s = map lower_char s"

section \<open>Display helpers\<close>

definition display_html :: \<open>string \<Rightarrow> string\<close> where
  \<open>display_html v =
     ''<span class="current-label">Current:</span> <span class="current-value">'' @ v @ ''</span>''\<close>

text \<open>
  The three \<^verbatim>\<open>innerHTML\<close> assignments of this variant splice a label into markup, and
  the fields above keep what was assigned. What the document then shows is the text the
  browser's fragment parser finds in it. \<open>text_content\<close> follows that parser on the part
  of HTML that the templates and simple labels need: character data, the references
  \<^verbatim>\<open>&amp;\<close>, \<^verbatim>\<open>&lt;\<close>, \<^verbatim>\<open>&gt;\<close>, \<^verbatim>\<open>&quot;\<close>, start and end tags of a few phrasing elements
  without attributes, and the two \<^verbatim>\<open>span\<close> tags of the readout template. On anything
  else (other tags, attributes, other references, NUL, carriage return) it gives
  \<open>None\<close>: the markup is outside what is modelled. Within this part no spliced element
  has a class or an id, so no selector of the program matches it. \<open>plain\<close> labels have
  no character that markup gives a meaning to.
\<close>

definition plain :: "string \<Rightarrow> bool" where
  "plain v = list_all (\<lambda>c. c \<noteq> CHR ''<'' \<and> c \<noteq> CHR ''&'' \<and> c \<noteq> CHR 0x00 \<and> c \<noteq> CHR 0x0D) v"

definition inline_names :: "string list" where
  "inline_names = [''span'', ''i'', ''b'', ''em'', ''strong'']"

definition ok_tag :: \<open>string \<Rightarrow> bool\<close> where
  \<open>ok_tag body =
     (body \<in> set (inline_names @ map ((#) CHR ''/'') inline_names @
                    [''span class="current-label"'', ''span class="current-value"'']))\<close>

function text_content :: "string \<Rightarrow> string option" where
  "text_content [] = Some []"
| "text_content (c # cs) =
     (if c = CHR ''<''
      then
        (let body = takeWhile (\<lambda>x. x \<noteq> CHR ''>'') cs
         in if length body < length cs \<and> ok_tag body
            then text_content (drop (Suc (length body)) cs)
            else None)
      else if c = CHR ''&''
      then
        (if take 4 cs = ''amp;'' then map_option ((#) CHR ''&'') (text_content (drop 4 cs))
         else if take 3 cs = ''lt;'' then map_option ((#) CHR ''<'') (text_content (drop 3 cs))
         else if take 3 cs = ''gt;'' then map_option ((#) CHR ''>'') (text_content (drop 3 cs))
         else if take 5 cs = ''quot;'' then map_option ((#) CHR 0x22) (text_content (drop 5 cs))
         else None)
      else if c = CHR 0x00 \<or> c = CHR 0x0D then None
      else map_option ((#) c) (text_content cs))"
  by pat_completeness auto
termination
  by (relation "measure length") auto

definition updateCurrentDisplay :: "string \<Rightarrow> string \<Rightarrow> state \<Rightarrow> state" where
  "updateCurrentDisplay name v s =
     (case currentValueDisplay s of
        None \<Rightarrow> s
      | Some d \<Rightarrow>
          if elt_id d = ''current-'' @ name
          then s\<lparr>currentValueDisplay := Some (d\<lparr>innerHTML := display_html v\<rparr>)\<rparr>
          else s)"

definition updateVisemeUI :: "string \<Rightarrow> state \<Rightarrow> state" where
  "updateVisemeUI v s =
     (let s1 = updateCurrentDisplay ''visemes'' v s
      in s1\<lparr>buttons := map (\<lambda>b. b\<lparr>active := (dataset_value b = v)\<rparr>) (buttons s1)\<rparr>)"

definition resetVisemeToNone :: "state \<Rightarrow> state" where
  "resetVisemeToNone s =
     (if visemeProperty s \<noteq> None \<and> ''none'' \<in> set (currentEnumValues s)
      then updateVisemeUI ''none'' (s\<lparr>visemeProperty := Some ''none''\<rparr>)
      else s)"

section \<open>Building the enum control\<close>

text \<open>
  A button built for a label: \<open>dataset_value\<close> is the data attribute, set as a property;
  \<open>btn_text\<close> is the label as it is spliced into the markup of the button, after the
  badge with the number of the key for the first nine.
\<close>

definition make_button :: "string \<Rightarrow> string \<Rightarrow> nat \<Rightarrow> enum_button" where
  "make_button current v index =
     \<lparr> dataset_value = v,
       key_badge = (if index < 9 then Some (index + 1) else None),
       btn_text = v,
       active = (current = v) \<rparr>"

definition make_buttons :: "string \<Rightarrow> string list \<Rightarrow> enum_button list" where
  "make_buttons current vs = map (\<lambda>(v, index). make_button current v index) (zip vs [0 ..< length vs])"

definition find_enum_values :: "asset \<Rightarrow> string \<Rightarrow> string list" where
  "find_enum_values a enumName =
     (case file_enums a of
        None \<Rightarrow> []
      | Some es \<Rightarrow>
          (case find (\<lambda>e. toLowerCase (fst e) = toLowerCase enumName) es of
             None \<Rightarrow> []
           | Some m \<Rightarrow> snd m))"

text \<open>
  \<^verbatim>\<open>createEnumControl\<close>: the section is created under \<^verbatim>\<open>#controls-content\<close> when the
  page has none (a missing parent throws); the label list is stored; the readout and
  the buttons are built detached and enter the document only with the last statement,
  which throws when \<^verbatim>\<open>#enums-container\<close> is missing. The property handle is
  \<open>visemeProperty\<close>, already stored by the caller.
\<close>

definition createEnumControl :: "string \<Rightarrow> string \<Rightarrow> asset \<Rightarrow> state \<Rightarrow> result" where
  "createEnumControl name enumName a s =
     (if \<not> enums_section s \<and> \<not> controls_content s then Inl (TypeError, s)
      else
        let s1 = (if \<not> enums_section s then s\<lparr>enums_section := True, enums_container := True\<rparr> else s);
            enumValues = find_enum_values a enumName;
            s2 = s1\<lparr>currentEnumValues := enumValues\<rparr>;
            current = (case visemeProperty s2 of None \<Rightarrow> [] | Some v \<Rightarrow> v);
            shown = (if current = [] then ''none'' else current);
            display = \<lparr> elt_id = ''current-'' @ name, innerHTML = display_html shown \<rparr>
        in if enums_container s2
           then Inr (s2\<lparr>currentValueDisplay := Some display,
                       buttons := buttons s2 @ make_buttons current enumValues\<rparr>)
           else Inl (TypeError, s2))"

definition hide_sections :: "state \<Rightarrow> result" where
  "hide_sections s =
     (case numbers_section s of
        None \<Rightarrow> Inl (TypeError, s)
      | Some _ \<Rightarrow>
          let s1 = s\<lparr>numbers_section := Some ''none''\<rparr>
          in (case triggers_section s1 of
                None \<Rightarrow> Inl (TypeError, s1)
              | Some _ \<Rightarrow>
                  let s2 = s1\<lparr>triggers_section := Some ''none''\<rparr>
                  in (case booleans_section s2 of
                        None \<Rightarrow> Inl (TypeError, s2)
                      | Some _ \<Rightarrow> Inr (s2\<lparr>booleans_section := Some ''none''\<rparr>))))"

definition setupViewModelControls :: "asset \<Rightarrow> state \<Rightarrow> result" where
  "setupViewModelControls a s =
     (if \<not> viewModelInstance s then Inr s
      else
        let s1 = s\<lparr>placeholder := map_option (\<lambda>p. p\<lparr>ph_display := ''none''\<rparr>) (placeholder s)\<rparr>;
            direct = vm_enum a visemesPropertyName;
            found = (case direct of None \<Rightarrow> vm_enum a (''viseme/'' @ visemesPropertyName) | Some v \<Rightarrow> Some v);
            s2 = s1\<lparr>visemeProperty := found\<rparr>
        in (case found of
              Some _ \<Rightarrow>
                (case createEnumControl ''visemes'' phonemesEnumName a s2 of
                   Inl e \<Rightarrow> Inl e
                 | Inr s3 \<Rightarrow> hide_sections s3)
            | None \<Rightarrow>
                hide_sections (s2\<lparr>console := console s2 @ [(LogWarn, [''visemes property not found on View Model''])]\<rparr>)))"

text \<open>
  The \<^verbatim>\<open>onLoad\<close> callback. \<^verbatim>\<open>resizeCanvas\<close> only writes the canvas dimensions, which
  nothing else reads, and is left out. \<open>after\<close> is the state a callback leaves behind,
  whether it returned or threw.
\<close>

definition onLoad :: "asset \<Rightarrow> state \<Rightarrow> result" where
  "onLoad a s =
     (let s1 = s\<lparr>viewModelInstance := has_view_model a\<rparr>
      in if viewModelInstance s1 then setupViewModelControls a s1 else Inr s1)"

fun after :: "result \<Rightarrow> state" where
  "after (Inl (e, s)) = s"
| "after (Inr s) = s"

definition onLoadError :: "string \<Rightarrow> state \<Rightarrow> state" where
  "onLoadError cause s = s\<lparr>console := console s @ [(LogError, [''Error loading Rive file:'', cause])]\<rparr>"

section \<open>Event handlers\<close>

text \<open>
  The click listener of the button at position \<open>i\<close> of the grid. A position with no
  button has no listener.
\<close>

definition click :: "nat \<Rightarrow> state \<Rightarrow> state" where
  "click i s =
     (if i < length (buttons s)
      then
        let v = dataset_value (buttons s ! i);
            s1 = s\<lparr>visemeProperty := Some v\<rparr>;
            s2 = s1\<lparr>buttons := map (\<lambda>b. b\<lparr>active := False\<rparr>) (buttons s1)\<rparr>;
            s3 = s2\<lparr>buttons := (buttons s2)[i := (buttons s2 ! i)\<lparr>active := True\<rparr>]\<rparr>
        in updateCurrentDisplay ''visemes'' v s3
      else s)"

definition cancel_reset :: "state \<Rightarrow> state" where
  "cancel_reset s =
     (if truthy_handle (resetTimer s)
      then (case resetTimer s of
              Some h \<Rightarrow> (clearTimeout h s)\<lparr>resetTimer := None\<rparr>
            | None \<Rightarrow> s)
      else s)"

definition apply_viseme :: "string \<Rightarrow> state \<Rightarrow> state" where
  "apply_viseme v s = updateVisemeUI v (s\<lparr>visemeProperty := Some v\<rparr>)"

definition schedule_reset :: "state \<Rightarrow> state" where
  "schedule_reset s = (let (h, s1) = setTimeout RESET_DELAY_MS s in s1\<lparr>resetTimer := Some h\<rparr>)"

definition keydown :: "string \<Rightarrow> state \<Rightarrow> state" where
  "keydown key s =
     (case parseInt key of
        None \<Rightarrow> s
      | Some keyNum \<Rightarrow>
          if 1 \<le> keyNum \<and> keyNum \<le> 9 \<and> 0 < length (currentEnumValues s)
          then
            let s1 = cancel_reset s;
                index = nat (keyNum - 1)
            in if index < length (currentEnumValues s1) \<and> visemeProperty s1 \<noteq> None
               then schedule_reset (apply_viseme (currentEnumValues s1 ! index) s1)
               else s1
          else s)"

text \<open>
  \<open>elapse d\<close>: \<open>d\<close> milliseconds pass with no input. Every pending task with at most
  \<open>d\<close> milliseconds left fires, the others come \<open>d\<close> milliseconds closer.
\<close>

definition elapse :: "nat \<Rightarrow> state \<Rightarrow> state" where
  "elapse d s =
     (let due = filter (\<lambda>t. snd t \<le> d) (timers s);
          rest = map (\<lambda>t. (fst t, snd t - d)) (filter (\<lambda>t. d < snd t) (timers s))
      in fold (\<lambda>t. resetVisemeToNone) due (s\<lparr>timers := rest\<rparr>))"

datatype event = KeyDown string | Click nat | Elapse nat

fun step :: "event \<Rightarrow> state \<Rightarrow> state" where
  "step (KeyDown key) s = keydown key s"
| "step (Click i) s = click i s"
| "step (Elapse d) s = elapse d s"

text \<open>
  The states the page can be in: before the load completes, after either load
  callback, and after any further event. Before the load completes no handler changes
  anything (there are no labels, no buttons and no timers), so the load callbacks start
  from the state \<^verbatim>\<open>initRive\<close> leaves.
\<close>

inductive reachable :: "state \<Rightarrow> bool" where
  r_init: "reachable (init_state pg)"
| r_start: "reachable (initRive pg (init_state pg))"
| r_load: "has_canvas pg \<Longrightarrow> reachable (after (onLoad a (initRive pg (init_state pg))))"
| r_error: "has_canvas pg \<Longrightarrow> reachable (onLoadError cause (initRive pg (init_state pg)))"
| r_step: "reachable s \<Longrightarrow> reachable (step e s)"

definition pending_handles :: "state \<Rightarrow> nat list" where
  "pending_handles s = map fst (timers s)"

text \<open>
  What holds of the timer table in every reachable state: at most one task is pending,
  \<open>resetTimer\<close> names it, and handles are positive and older than the next one.
\<close>

definition timer_inv :: "state \<Rightarrow> bool" where
  "timer_inv s \<longleftrightarrow>
     length (timers s) \<le> 1 \<and>
     (\<forall>t \<in> set (timers s). resetTimer s = Some (fst t)) \<and>
     0 < nextTimerId s \<and>
     (\<forall>h. resetTimer s = Some h \<longrightarrow> 0 < h \<and> h < nextTimerId s)"

text \<open>
  What holds of the controls in every reachable state: labels are only known once the
  property was found, and buttons in the document come with the readout and carry the
  labels in order.
\<close>

definition ui_inv :: "state \<Rightarrow> bool" where
  "ui_inv s \<longleftrightarrow>
     (currentEnumValues s \<noteq> [] \<longrightarrow> visemeProperty s \<noteq> None) \<and>
     (0 < length (buttons s) \<longrightarrow>
        map dataset_value (buttons s) = currentEnumValues s \<and>
        (\<exists>d. currentValueDisplay s = Some d \<and> elt_id d = ''current-visemes''))"

text \<open>The text of a button is the label it stands for.\<close>

definition text_inv :: "state \<Rightarrow> bool" where
  "text_inv s \<longleftrightarrow> map btn_text (buttons s) = map dataset_value (buttons s)"

section \<open>The scenario of the specification\<close>

text \<open>
  A page with every element the code looks up, and an asset whose view model has the
  property \<^verbatim>\<open>visemes\<close> with value \<open>v0\<close> and whose enum \<^verbatim>\<open>phonemes\<close> declares the given
  labels; in the scenario they are none, AA, E, O.
\<close>

definition scenario_page :: page where
  "scenario_page =
     \<lparr> has_canvas = True,
       page_placeholder = Some \<lparr> ph_innerHTML = ''Loading animation...'', ph_display = [], ph_color = [] \<rparr>,
       has_controls_content = True, has_enums_section = True, has_enums_container = True,
       has_numbers_section = True, has_triggers_section = True, has_booleans_section = True,
       timer_seed = 0 \<rparr>"

definition labels_asset :: "string list \<Rightarrow> string \<Rightarrow> asset" where
  "labels_asset labels v0 =
     \<lparr> has_view_model = True,
       vm_enum = [''visemes'' \<mapsto> v0],
       file_enums = Some [(''phonemes'', labels)] \<rparr>"

definition scenario_asset :: "string \<Rightarrow> asset" where
  "scenario_asset v0 = labels_asset [''none'', ''AA'', ''E'', ''O''] v0"

definition scenario_loaded :: "string \<Rightarrow> state" where
  "scenario_loaded v0 = after (onLoad (scenario_asset v0) (initRive scenario_page (init_state scenario_page)))"

section \<open>Generic variant of main.js: state-machine inputs\<close>

text \<open>
  The second variant (lines 209 to 666) lists the inputs of a state machine and builds
  one control per input. An input is an object of the runtime with a name, a numeric
  type tag and a value; \<open>fired\<close> counts the calls of its \<^verbatim>\<open>fire\<close> method, and \<open>has_fire\<close>
  says whether the object has that method at all. The type of values is left open.
  \<open>stateMachineInputs\<close> is \<open>None\<close> when the variable holds \<^verbatim>\<open>undefined\<close> or \<^verbatim>\<open>null\<close>, which
  \<^verbatim>\<open>setupControls\<close> tests for after it has stored what the runtime returned.
\<close>

record 'v sm_input =
  input_name :: string
  input_type :: nat
  input_value :: 'v
  has_fire :: bool
  fired :: nat

datatype 'v control = TriggerButton string | BooleanToggle string 'v

text \<open>
  A number control is a label with a readout and a range input. \<open>nc_input\<close> is the
  position, in the list the runtime returned, of the input object the listener closes
  over. The attributes are kept as the attribute text the assignments give. The slider
  position is either the number assigned at creation or the text the user has moved it
  to. \<open>Fixed1 x\<close> is the text \<^verbatim>\<open>x.toFixed(1)\<close>: number formatting is the browser's, and
  only which number is formatted is modelled. The readout element has the id
  \<^verbatim>\<open>value-\<close> followed by the name, spliced into markup like the name in the label, so
  all this is what the document holds when names have no character that markup or a
  quoted attribute gives a meaning to (\<open>plain_name\<close>).
\<close>

datatype 'v slider_value = FromNumber 'v | FromUser string

datatype 'v fixed_text = Fixed1 'v

record 'v number_control =
  nc_name :: string
  nc_input :: nat
  nc_min :: string
  nc_max :: string
  nc_step :: string
  nc_value :: "'v slider_value"
  nc_readout :: "'v fixed_text"



record gpage =
  g_has_canvas :: bool
  g_page_placeholder :: "placeholder_elt option"
  has_triggers_container :: bool
  has_booleans_container :: bool
  has_numbers_container :: bool
  g_has_triggers_section :: bool
  g_has_booleans_section :: bool
  g_has_numbers_section :: bool

record 'v gstate =
  riveInstance :: bool
  stateMachineInputs :: "'v sm_input list option"
  g_placeholder :: "placeholder_elt option"
  triggers_container :: "'v control list option"
  booleans_container :: "'v control list option"
  numbers_container :: "'v number_control list option"
  g_triggers_section :: "string option"
  g_booleans_section :: "string option"
  g_numbers_section :: "string option"
  g_console :: "(log_level \<times> string list) list"
  g_loads_started :: nat

type_synonym 'v gresult = "(error \<times> 'v gstate) + 'v gstate"

definition container_of :: "bool \<Rightarrow> 'a list option" where
  "container_of present = (if present then Some [] else None)"

definition g_init_state :: "gpage \<Rightarrow> 'v gstate" where
  "g_init_state pg =
     \<lparr> riveInstance = False, stateMachineInputs = Some [],
       g_placeholder = g_page_placeholder pg,
       triggers_container = container_of (has_triggers_container pg),
       booleans_container = container_of (has_booleans_container pg),
       numbers_container = container_of (has_numbers_container pg),
       g_triggers_section = section_of (g_has_triggers_section pg),
       g_booleans_section = section_of (g_has_booleans_section pg),
       g_numbers_section = section_of (g_has_numbers_section pg),
       g_console = [], g_loads_started = 0 \<rparr>"

definition glog :: "log_level \<Rightarrow> string list \<Rightarrow> 'v gstate \<Rightarrow> 'v gstate" where
  "glog lvl args s = s\<lparr>g_console := g_console s @ [(lvl, args)]\<rparr>"

definition load_error_html :: \<open>string\<close> where
  \<open>load_error_html =
     [CHR 0x0A] @ ''      <strong>Error loading .riv file</strong><br>'' @
     [CHR 0x0A] @ ''      Please ensure your file is placed in the <code>/public</code> folder'' @
     [CHR 0x0A] @ ''      and update the path in <code>main.js</code>'' @
     [CHR 0x0A] @ ''    ''\<close>

definition showLoadError :: "'v gstate \<Rightarrow> 'v gstate" where
  "showLoadError s =
     s\<lparr>g_placeholder :=
         map_option (\<lambda>p. p\<lparr>ph_innerHTML := load_error_html, ph_color := ''#ff6b6b''\<rparr>) (g_placeholder s)\<rparr>"

definition g_onLoadError :: "string \<Rightarrow> 'v gstate \<Rightarrow> 'v gstate" where
  "g_onLoadError cause s = showLoadError (glog LogError [''Error loading Rive file:'', cause] s)"

text \<open>
  \<^verbatim>\<open>initRive\<close> of this variant wraps the construction in \<^verbatim>\<open>try\<close>; \<open>thrown\<close> is what the
  constructor threw, if it did.
\<close>

definition g_initRive :: "gpage \<Rightarrow> string option \<Rightarrow> 'v gstate \<Rightarrow> 'v gstate" where
  "g_initRive pg thrown s =
     (if \<not> g_has_canvas pg then glog LogError [''Canvas element not found!''] s
      else
        (case thrown of
           None \<Rightarrow> s\<lparr>riveInstance := True, g_loads_started := Suc (g_loads_started s)\<rparr>
         | Some e \<Rightarrow> showLoadError (glog LogError [''Failed to initialize Rive:'', e] s)))"

function string_of_nat :: "nat \<Rightarrow> string" where
  "string_of_nat n =
     (if n < 10 then [char_of (48 + n)] else string_of_nat (n div 10) @ [char_of (48 + n mod 10)])"
  by pat_completeness auto
termination
  by (relation "measure id") auto

definition createTriggerControl :: "'v control list \<Rightarrow> 'v sm_input \<Rightarrow> string \<Rightarrow> 'v control list" where
  "createTriggerControl container input name = container @ [TriggerButton name]"

definition createBooleanControl :: "'v control list \<Rightarrow> 'v sm_input \<Rightarrow> string \<Rightarrow> 'v control list" where
  "createBooleanControl container input name = container @ [BooleanToggle name (input_value input)]"

text \<open>
  \<^verbatim>\<open>createNumberControl\<close>: the readout starts as the input's value formatted, the slider
  gets minimum 0, maximum 100 and step 0.1 and is set from the input's value. \<open>k\<close> is
  the position of \<open>input\<close> among the inputs.
\<close>

definition createNumberControl ::
    "'v number_control list \<Rightarrow> nat \<Rightarrow> 'v sm_input \<Rightarrow> string \<Rightarrow> 'v number_control list" where
  "createNumberControl container k input name =
     container @
       [\<lparr> nc_name = name, nc_input = k,
          nc_min = ''0'', nc_max = ''100'', nc_step = ''0.1'',
          nc_value = FromNumber (input_value input),
          nc_readout = Fixed1 (input_value input) \<rparr>]"

definition createControl :: "nat \<Rightarrow> 'v sm_input \<Rightarrow> 'v gstate \<Rightarrow> 'v gstate" where
  "createControl k i s =
     (if input_type i = 56
      then s\<lparr>triggers_container :=
               map_option (\<lambda>c. createTriggerControl c i (input_name i)) (triggers_container s)\<rparr>
      else if input_type i = 59
      then s\<lparr>booleans_container :=
               map_option (\<lambda>c. createBooleanControl c i (input_name i)) (booleans_container s)\<rparr>
      else if input_type i = 58
      then s\<lparr>numbers_container :=
               map_option (\<lambda>c. createNumberControl c k i (input_name i)) (numbers_container s)\<rparr>
      else glog LogInfo
             [''Unknown input type: '' @ string_of_nat (input_type i) @ '' for '' @ input_name i] s)"

definition shown :: "bool \<Rightarrow> string" where
  "shown has = (if has then ''block'' else ''none'')"

definition show_sections :: "'v sm_input list \<Rightarrow> 'v gstate \<Rightarrow> 'v gresult" where
  "show_sections inputs s =
     (case g_triggers_section s of
        None \<Rightarrow> Inl (TypeError, s)
      | Some _ \<Rightarrow>
          let s1 = s\<lparr>g_triggers_section := Some (shown (list_ex (\<lambda>i. input_type i = 56) inputs))\<rparr>
          in (case g_booleans_section s1 of
                None \<Rightarrow> Inl (TypeError, s1)
              | Some _ \<Rightarrow>
                  let s2 = s1\<lparr>g_booleans_section := Some (shown (list_ex (\<lambda>i. input_type i = 59) inputs))\<rparr>
                  in (case g_numbers_section s2 of
                        None \<Rightarrow> Inl (TypeError, s2)
                      | Some _ \<Rightarrow>
                          Inr (s2\<lparr>g_numbers_section :=
                                    Some (shown (list_ex (\<lambda>i. input_type i = 58) inputs))\<rparr>))))"

definition clear_containers :: "'v gstate \<Rightarrow> 'v gresult" where
  "clear_containers s =
     (case triggers_container s of
        None \<Rightarrow> Inl (TypeError, s)
      | Some _ \<Rightarrow>
          let s1 = s\<lparr>triggers_container := Some []\<rparr>
          in (case booleans_container s1 of
                None \<Rightarrow> Inl (TypeError, s1)
              | Some _ \<Rightarrow>
                  let s2 = s1\<lparr>booleans_container := Some []\<rparr>
                  in (case numbers_container s2 of
                        None \<Rightarrow> Inl (TypeError, s2)
                      | Some _ \<Rightarrow> Inr (s2\<lparr>numbers_container := Some []\<rparr>))))"

text \<open>
  \<^verbatim>\<open>setupControls\<close>; \<open>runtime\<close> is what \<^verbatim>\<open>riveInstance.stateMachineInputs(name)\<close> returned.
  The result is stored in the module variable before it is tested. Console arguments
  that are not strings are left out of the entries.
\<close>

definition setupControls :: "'v sm_input list option \<Rightarrow> 'v gstate \<Rightarrow> 'v gresult" where
  "setupControls runtime s =
     (if \<not> riveInstance s then Inr (glog LogWarn [''Rive instance not ready''] s)
      else
        let s1 = s\<lparr>stateMachineInputs := runtime\<rparr>
        in (case runtime of
              None \<Rightarrow> Inr (glog LogInfo [''No state machine inputs found''] s1)
            | Some inputs \<Rightarrow>
                if length inputs = 0 then Inr (glog LogInfo [''No state machine inputs found''] s1)
                else
                  let s2 = glog LogInfo [''Found inputs:''] s1;
                      s3 = s2\<lparr>g_placeholder := map_option (\<lambda>p. p\<lparr>ph_display := ''none''\<rparr>) (g_placeholder s2)\<rparr>
                  in (case clear_containers s3 of
                        Inl e \<Rightarrow> Inl e
                      | Inr s4 \<Rightarrow>
                          show_sections inputs
                            (fold (\<lambda>(k, i). createControl k i) (enumerate 0 inputs) s4))))"

definition g_onLoad :: "'v sm_input list option \<Rightarrow> 'v gstate \<Rightarrow> 'v gresult" where
  "g_onLoad runtime s = setupControls runtime (glog LogInfo [''Rive animation loaded successfully!''] s)"

fun g_after :: "'v gresult \<Rightarrow> 'v gstate" where
  "g_after (Inl (e, s)) = s"
| "g_after (Inr s) = s"

subsection \<open>Exported helpers\<close>

text \<open>
  \<^verbatim>\<open>stateMachineInputs.find(...)\<close> throws a TypeError when the variable does not hold an
  array. The helpers change the first input with the name, as \<^verbatim>\<open>find\<close> returns it.
\<close>

fun update_first :: "('a \<Rightarrow> bool) \<Rightarrow> ('a \<Rightarrow> 'a) \<Rightarrow> 'a list \<Rightarrow> 'a list" where
  "update_first P f [] = []"
| "update_first P f (x # xs) = (if P x then f x # xs else x # update_first P f xs)"

definition triggerInput :: "string \<Rightarrow> 'v gstate \<Rightarrow> error + 'v gstate" where
  "triggerInput inputName s =
     (case stateMachineInputs s of
        None \<Rightarrow> Inl TypeError
      | Some inputs \<Rightarrow>
          (case find (\<lambda>i. input_name i = inputName) inputs of
             None \<Rightarrow> Inr s
           | Some i \<Rightarrow>
               if has_fire i
               then Inr (s\<lparr>stateMachineInputs :=
                            Some (update_first (\<lambda>i. input_name i = inputName)
                                    (\<lambda>i. i\<lparr>fired := Suc (fired i)\<rparr>) inputs)\<rparr>)
               else Inr s))"

definition setBooleanInput :: "string \<Rightarrow> 'v \<Rightarrow> 'v gstate \<Rightarrow> error + 'v gstate" where
  "setBooleanInput inputName v s =
     (case stateMachineInputs s of
        None \<Rightarrow> Inl TypeError
      | Some inputs \<Rightarrow>
          (case find (\<lambda>i. input_name i = inputName) inputs of
             None \<Rightarrow> Inr s
           | Some i \<Rightarrow>
               Inr (s\<lparr>stateMachineInputs :=
                       Some (update_first (\<lambda>i. input_name i = inputName)
                               (\<lambda>i. i\<lparr>input_value := v\<rparr>) inputs)\<rparr>)))"

definition setNumberInput :: "string \<Rightarrow> 'v \<Rightarrow> 'v gstate \<Rightarrow> error + 'v gstate" where
  "setNumberInput inputName v s =
     (case stateMachineInputs s of
        None \<Rightarrow> Inl TypeError
      | Some inputs \<Rightarrow>
          (case find (\<lambda>i. input_name i = inputName) inputs of
             None \<Rightarrow> Inr s
           | Some i \<Rightarrow>
               Inr (s\<lparr>stateMachineInputs :=
                       Some (update_first (\<lambda>i. input_name i = inputName)
                               (\<lambda>i. i\<lparr>input_value := v\<rparr>) inputs)\<rparr>)))"

subsection \<open>The listener of a number control\<close>




text \<open>
  A page with every element, and a load where the runtime knows no state machine of the
  configured name and returns \<^verbatim>\<open>undefined\<close>.
\<close>

definition generic_page :: gpage where
  "generic_page =
     \<lparr> g_has_canvas = True,
       g_page_placeholder = Some \<lparr> ph_innerHTML = ''Loading animation...'', ph_display = [], ph_color = [] \<rparr>,
       has_triggers_container = True, has_booleans_container = True, has_numbers_container = True,
       g_has_triggers_section = True, g_has_booleans_section = True, g_has_numbers_section = True \<rparr>"

definition no_machine_loaded :: "bool gstate" where
  "no_machine_loaded = g_after (g_onLoad None (g_initRive generic_page None (g_init_state generic_page)))"




section \<open>States of the scenario used below\<close>

text \<open>
  \<open>scenario_held\<close>: the scenario after key 2, with its reset pending. \<open>scenario_clicked\<close>:
  400 ms later the fourth button is clicked. \<open>no_none_held\<close>: an asset whose labels do
  not include none, after key 1. \<open>readout\<close> is the markup assigned to the current-value
  element, if it is in the document.
\<close>

definition scenario_held :: state where
  "scenario_held = keydown ''2'' (scenario_loaded ''none'')"

definition scenario_clicked :: state where
  "scenario_clicked = click 3 (elapse 400 scenario_held)"

definition no_none_held :: state where
  "no_none_held =
     keydown ''1'' (after (onLoad (labels_asset [''AA'', ''E''] ''E'') (initRive scenario_page (init_state scenario_page))))"

definition readout :: "state \<Rightarrow> string option" where
  "readout s = map_option innerHTML (currentValueDisplay s)"

text \<open>
  \<open>readout_text\<close> is the text the current-value element shows. \<open>enum_button_marks\<close> are the
  active marks of all the elements in the container that the selector \<^verbatim>\<open>.enum-button\<close>
  matches: those of the buttons built by \<^verbatim>\<open>createEnumControl\<close>, provided all markup
  spliced into the readout and the buttons is of the modelled kind. \<open>markup_loaded\<close> is
  the scenario with a label that carries markup.
\<close>

definition readout_text :: "state \<Rightarrow> string option" where
  "readout_text s =
     (case currentValueDisplay s of None \<Rightarrow> None | Some d \<Rightarrow> text_content (innerHTML d))"

definition enum_button_marks :: "state \<Rightarrow> bool list option" where
  "enum_button_marks s =
     (if (case currentValueDisplay s of None \<Rightarrow> True | Some d \<Rightarrow> text_content (innerHTML d) \<noteq> None) \<and>
         list_all (\<lambda>b. text_content (btn_text b) \<noteq> None) (buttons s)
      then Some (map active (buttons s))
      else None)"

definition markup_loaded :: state where
  "markup_loaded =
     after (onLoad (labels_asset [''none'', ''<i>x</i>''] ''none'') (initRive scenario_page (init_state scenario_page)))"

section \<open>Frame lemmas and invariants\<close>

lemma updateCurrentDisplay_frame:
  "timers (updateCurrentDisplay n v s) = timers s"
  "resetTimer (updateCurrentDisplay n v s) = resetTimer s"
  "nextTimerId (updateCurrentDisplay n v s) = nextTimerId s"
  "currentEnumValues (updateCurrentDisplay n v s) = currentEnumValues s"
  "visemeProperty (updateCurrentDisplay n v s) = visemeProperty s"
  "buttons (updateCurrentDisplay n v s) = buttons s"
  by (simp_all add: updateCurrentDisplay_def split: option.splits)

lemma updateCurrentDisplay_id:
  "elt_id d = ''current-visemes'' \<Longrightarrow> currentValueDisplay s = Some d \<Longrightarrow>
   currentValueDisplay (updateCurrentDisplay ''visemes'' v s) = Some (d\<lparr>innerHTML := display_html v\<rparr>)"
  by (simp add: updateCurrentDisplay_def)

lemma updateCurrentDisplay_keeps_id:
  "(\<exists>d. currentValueDisplay (updateCurrentDisplay n v s) = Some d \<and> elt_id d = i) \<longleftrightarrow>
   (\<exists>d. currentValueDisplay s = Some d \<and> elt_id d = i)"
  by (auto simp add: updateCurrentDisplay_def split: option.splits)

lemma updateVisemeUI_frame:
  "timers (updateVisemeUI v s) = timers s"
  "resetTimer (updateVisemeUI v s) = resetTimer s"
  "nextTimerId (updateVisemeUI v s) = nextTimerId s"
  "currentEnumValues (updateVisemeUI v s) = currentEnumValues s"
  "visemeProperty (updateVisemeUI v s) = visemeProperty s"
  "map dataset_value (buttons (updateVisemeUI v s)) = map dataset_value (buttons s)"
  "length (buttons (updateVisemeUI v s)) = length (buttons s)"
  by (simp_all add: updateVisemeUI_def Let_def updateCurrentDisplay_frame o_def)

lemma updateVisemeUI_keeps_id:
  "(\<exists>d. currentValueDisplay (updateVisemeUI v s) = Some d \<and> elt_id d = i) \<longleftrightarrow>
   (\<exists>d. currentValueDisplay s = Some d \<and> elt_id d = i)"
  by (simp add: updateVisemeUI_def Let_def updateCurrentDisplay_keeps_id)

lemma resetVisemeToNone_frame:
  "timers (resetVisemeToNone s) = timers s"
  "resetTimer (resetVisemeToNone s) = resetTimer s"
  "nextTimerId (resetVisemeToNone s) = nextTimerId s"
  "currentEnumValues (resetVisemeToNone s) = currentEnumValues s"
  "map dataset_value (buttons (resetVisemeToNone s)) = map dataset_value (buttons s)"
  "length (buttons (resetVisemeToNone s)) = length (buttons s)"
  "visemeProperty s \<noteq> None \<Longrightarrow> visemeProperty (resetVisemeToNone s) \<noteq> None"
  by (simp_all add: resetVisemeToNone_def updateVisemeUI_frame)

lemma resetVisemeToNone_keeps_id:
  "(\<exists>d. currentValueDisplay (resetVisemeToNone s) = Some d \<and> elt_id d = i) \<longleftrightarrow>
   (\<exists>d. currentValueDisplay s = Some d \<and> elt_id d = i)"
  by (simp add: resetVisemeToNone_def updateVisemeUI_keeps_id)

lemma ui_inv_reset: "ui_inv s \<Longrightarrow> ui_inv (resetVisemeToNone s)"
  unfolding ui_inv_def
  by (simp add: resetVisemeToNone_frame resetVisemeToNone_keeps_id)

lemma fold_reset_frame:
  "timers (fold (\<lambda>t. resetVisemeToNone) ts s) = timers s \<and>
   resetTimer (fold (\<lambda>t. resetVisemeToNone) ts s) = resetTimer s \<and>
   nextTimerId (fold (\<lambda>t. resetVisemeToNone) ts s) = nextTimerId s"
  by (induction ts arbitrary: s) (simp_all add: resetVisemeToNone_frame)

lemma fold_reset_ui: "ui_inv s \<Longrightarrow> ui_inv (fold (\<lambda>t. resetVisemeToNone) ts s)"
  by (induction ts arbitrary: s) (simp_all add: ui_inv_reset)

lemma timer_inv_elapse:
  assumes "timer_inv s"
  shows "timer_inv (elapse d s)"
proof -
  let ?rest = "map (\<lambda>t. (fst t, snd t - d)) (filter (\<lambda>t. d < snd t) (timers s))"
  let ?due = "filter (\<lambda>t. snd t \<le> d) (timers s)"
  let ?s' = "fold (\<lambda>t. resetVisemeToNone) ?due (s\<lparr>timers := ?rest\<rparr>)"
  have e: "elapse d s = ?s'" by (simp add: elapse_def Let_def)
  have t: "timers ?s' = ?rest" and r: "resetTimer ?s' = resetTimer s"
    and n: "nextTimerId ?s' = nextTimerId s"
    by (simp_all add: fold_reset_frame)
  have "length ?rest \<le> length (timers s)" by simp
  moreover from assms have "length (timers s) \<le> 1" by (simp add: timer_inv_def)
  ultimately have len: "length ?rest \<le> 1" by (rule le_trans)
  have ids: "resetTimer s = Some (fst t)" if "t \<in> set ?rest" for t
  proof -
    from that obtain u where "u \<in> set (timers s)" and "fst t = fst u" by auto
    with assms show ?thesis by (simp add: timer_inv_def)
  qed
  from assms have rest: "0 < nextTimerId s"
    "\<forall>h. resetTimer s = Some h \<longrightarrow> 0 < h \<and> h < nextTimerId s"
    by (simp_all add: timer_inv_def)
  show ?thesis
    unfolding e timer_inv_def t r n using len ids rest by blast
qed

lemma ui_inv_elapse: "ui_inv s \<Longrightarrow> ui_inv (elapse d s)"
proof -
  assume a: "ui_inv s"
  have "ui_inv (s\<lparr>timers := t\<rparr>)" for t using a by (simp add: ui_inv_def)
  then show ?thesis unfolding elapse_def Let_def by (rule fold_reset_ui)
qed


lemma cancel_reset_frame:
  "nextTimerId (cancel_reset s) = nextTimerId s"
  "currentEnumValues (cancel_reset s) = currentEnumValues s"
  "visemeProperty (cancel_reset s) = visemeProperty s"
  "buttons (cancel_reset s) = buttons s"
  "currentValueDisplay (cancel_reset s) = currentValueDisplay s"
  by (simp_all add: cancel_reset_def clearTimeout_def split: option.splits)

lemma cancel_reset_clears:
  assumes "timer_inv s"
  shows "timers (cancel_reset s) = []" and "resetTimer (cancel_reset s) = None"
proof -
  show "resetTimer (cancel_reset s) = None"
    using assms by (cases "resetTimer s") (simp_all add: cancel_reset_def clearTimeout_def timer_inv_def)
  show "timers (cancel_reset s) = []"
  proof (cases "resetTimer s")
    case None
    with assms have "timers s = []" by (cases "timers s") (auto simp: timer_inv_def)
    with None show ?thesis by (simp add: cancel_reset_def)
  next
    case (Some h)
    with assms have pos: "h \<noteq> 0" and all: "\<forall>t \<in> set (timers s). fst t = h"
      by (auto simp: timer_inv_def)
    from all have "filter (\<lambda>t. fst t \<noteq> h) (timers s) = []" by (simp add: filter_empty_conv)
    with Some pos show ?thesis by (simp add: cancel_reset_def clearTimeout_def)
  qed
qed

lemma timer_inv_cancel: "timer_inv s \<Longrightarrow> timer_inv (cancel_reset s)"
  using cancel_reset_clears[of s] by (simp add: timer_inv_def cancel_reset_frame)

lemma schedule_reset_timers:
  "timers (schedule_reset s) = timers s @ [(nextTimerId s, RESET_DELAY_MS)]"
  "resetTimer (schedule_reset s) = Some (nextTimerId s)"
  "nextTimerId (schedule_reset s) = Suc (nextTimerId s)"
  "currentEnumValues (schedule_reset s) = currentEnumValues s"
  "visemeProperty (schedule_reset s) = visemeProperty s"
  "buttons (schedule_reset s) = buttons s"
  "currentValueDisplay (schedule_reset s) = currentValueDisplay s"
  by (simp_all add: schedule_reset_def setTimeout_def)

lemma apply_viseme_frame:
  "timers (apply_viseme v s) = timers s"
  "resetTimer (apply_viseme v s) = resetTimer s"
  "nextTimerId (apply_viseme v s) = nextTimerId s"
  "currentEnumValues (apply_viseme v s) = currentEnumValues s"
  "visemeProperty (apply_viseme v s) = Some v"
  "map dataset_value (buttons (apply_viseme v s)) = map dataset_value (buttons s)"
  "length (buttons (apply_viseme v s)) = length (buttons s)"
  by (simp_all add: apply_viseme_def updateVisemeUI_frame)

lemma apply_viseme_keeps_id:
  "(\<exists>d. currentValueDisplay (apply_viseme v s) = Some d \<and> elt_id d = i) \<longleftrightarrow>
   (\<exists>d. currentValueDisplay s = Some d \<and> elt_id d = i)"
  by (simp add: apply_viseme_def updateVisemeUI_keeps_id)

lemma keydown_cases:
  "keydown key s = s \<or> keydown key s = cancel_reset s \<or>
   (\<exists>v. keydown key s = schedule_reset (apply_viseme v (cancel_reset s)))"
  by (auto simp: keydown_def Let_def split: option.splits)

lemma timer_inv_schedule:
  assumes "timer_inv s"
  shows "timer_inv (schedule_reset (apply_viseme v (cancel_reset s)))"
  using assms cancel_reset_clears[OF assms]
  by (simp add: timer_inv_def schedule_reset_timers apply_viseme_frame cancel_reset_frame)

lemma timer_inv_keydown:
  assumes "timer_inv s"
  shows "timer_inv (keydown key s)"
proof -
  consider "keydown key s = s" | "keydown key s = cancel_reset s"
    | v where "keydown key s = schedule_reset (apply_viseme v (cancel_reset s))"
    using keydown_cases[of key s] by blast
  then show ?thesis
  proof cases
    case 1 with assms show ?thesis by simp
  next
    case 2 with assms show ?thesis by (simp add: timer_inv_cancel)
  next
    case 3 with assms show ?thesis by (simp add: timer_inv_schedule)
  qed
qed

lemma ui_inv_cancel: "ui_inv s \<Longrightarrow> ui_inv (cancel_reset s)"
  by (simp add: ui_inv_def cancel_reset_frame)

lemma ui_inv_schedule: "ui_inv s \<Longrightarrow> ui_inv (schedule_reset (apply_viseme v s))"
  by (simp add: ui_inv_def schedule_reset_timers apply_viseme_frame apply_viseme_keeps_id)

lemma ui_inv_keydown:
  assumes "ui_inv s"
  shows "ui_inv (keydown key s)"
proof -
  consider "keydown key s = s" | "keydown key s = cancel_reset s"
    | v where "keydown key s = schedule_reset (apply_viseme v (cancel_reset s))"
    using keydown_cases[of key s] by blast
  then show ?thesis
  proof cases
    case 1 with assms show ?thesis by simp
  next
    case 2 with assms show ?thesis by (simp add: ui_inv_cancel)
  next
    case 3 with assms show ?thesis by (simp add: ui_inv_cancel ui_inv_schedule)
  qed
qed

lemma map_update_same: "(map f xs)[i := f (xs ! i)] = map f xs"
  by (simp add: map_update[symmetric])

lemma click_frame:
  "timers (click i s) = timers s"
  "resetTimer (click i s) = resetTimer s"
  "nextTimerId (click i s) = nextTimerId s"
  "currentEnumValues (click i s) = currentEnumValues s"
  "map dataset_value (buttons (click i s)) = map dataset_value (buttons s)"
  "length (buttons (click i s)) = length (buttons s)"
  by (simp_all add: click_def Let_def updateCurrentDisplay_frame o_def map_update map_update_same)

lemma click_value:
  "i < length (buttons s) \<Longrightarrow> visemeProperty (click i s) = Some (dataset_value (buttons s ! i))"
  by (simp add: click_def Let_def updateCurrentDisplay_frame)

lemma click_keeps_id:
  "(\<exists>d. currentValueDisplay (click j s) = Some d \<and> elt_id d = i) \<longleftrightarrow>
   (\<exists>d. currentValueDisplay s = Some d \<and> elt_id d = i)"
  by (simp add: click_def Let_def updateCurrentDisplay_keeps_id)

lemma timer_inv_click: "timer_inv s \<Longrightarrow> timer_inv (click i s)"
  by (simp add: timer_inv_def click_frame)

lemma ui_inv_click: "ui_inv s \<Longrightarrow> ui_inv (click i s)"
proof (cases "i < length (buttons s)")
  case True
  assume "ui_inv s"
  then show ?thesis
    using True by (simp add: ui_inv_def click_frame click_keeps_id click_value)
next
  case False
  assume "ui_inv s"
  with False show ?thesis by (simp add: click_def)
qed


lemma hide_sections_frame:
  "timers (after (hide_sections s)) = timers s"
  "resetTimer (after (hide_sections s)) = resetTimer s"
  "nextTimerId (after (hide_sections s)) = nextTimerId s"
  "currentEnumValues (after (hide_sections s)) = currentEnumValues s"
  "visemeProperty (after (hide_sections s)) = visemeProperty s"
  "buttons (after (hide_sections s)) = buttons s"
  "currentValueDisplay (after (hide_sections s)) = currentValueDisplay s"
  by (simp_all add: hide_sections_def Let_def split: option.splits)

lemma make_buttons_values: "map dataset_value (make_buttons c vs) = vs"
proof -
  have "map dataset_value (make_buttons c vs) = map fst (zip vs [0 ..< length vs])"
    by (simp add: make_buttons_def make_button_def o_def case_prod_unfold)
  then show ?thesis by simp
qed

lemma createEnumControl_frame:
  "timers (after (createEnumControl n e a s)) = timers s"
  "resetTimer (after (createEnumControl n e a s)) = resetTimer s"
  "nextTimerId (after (createEnumControl n e a s)) = nextTimerId s"
  "visemeProperty (after (createEnumControl n e a s)) = visemeProperty s"
  by (simp_all add: createEnumControl_def Let_def)

lemma createEnumControl_ui:
  assumes "visemeProperty s \<noteq> None" and "buttons s = []"
  shows "ui_inv (after (createEnumControl ''visemes'' e a s))"
  using assms
  by (simp add: createEnumControl_def Let_def ui_inv_def make_buttons_values)

lemma timer_inv_init: "timer_inv (init_state pg)" and timer_inv_start: "timer_inv (initRive pg (init_state pg))"
  by (simp_all add: timer_inv_def init_state_def initRive_def)

lemma ui_inv_init: "ui_inv (init_state pg)" and ui_inv_start: "ui_inv (initRive pg (init_state pg))"
  by (simp_all add: ui_inv_def init_state_def initRive_def)

lemma then_hide_frame:
  "timers (after (case r of Inl e \<Rightarrow> Inl e | Inr s3 \<Rightarrow> hide_sections s3)) = timers (after r)"
  "resetTimer (after (case r of Inl e \<Rightarrow> Inl e | Inr s3 \<Rightarrow> hide_sections s3)) = resetTimer (after r)"
  "nextTimerId (after (case r of Inl e \<Rightarrow> Inl e | Inr s3 \<Rightarrow> hide_sections s3)) = nextTimerId (after r)"
  by (cases r; auto simp add: hide_sections_frame)+

lemma setup_frame:
  "timers (after (setupViewModelControls a s)) = timers s"
  "resetTimer (after (setupViewModelControls a s)) = resetTimer s"
  "nextTimerId (after (setupViewModelControls a s)) = nextTimerId s"
  by (simp_all add: setupViewModelControls_def Let_def then_hide_frame hide_sections_frame
        createEnumControl_frame split: option.split)

lemma onLoad_frame:
  "timers (after (onLoad a s)) = timers s"
  "resetTimer (after (onLoad a s)) = resetTimer s"
  "nextTimerId (after (onLoad a s)) = nextTimerId s"
  by (simp_all add: onLoad_def Let_def setup_frame)

lemma timer_inv_load: "timer_inv (after (onLoad a (initRive pg (init_state pg))))"
  using timer_inv_start[of pg] by (simp add: timer_inv_def onLoad_frame)

lemma ui_inv_hide: "ui_inv s \<Longrightarrow> ui_inv (after (hide_sections s))"
  by (simp add: ui_inv_def hide_sections_frame)

lemma ui_inv_setup:
  assumes "buttons s = []" and "currentEnumValues s = []"
  shows "ui_inv (after (setupViewModelControls a s))"
proof (cases "viewModelInstance s")
  case False
  with assms show ?thesis by (simp add: setupViewModelControls_def ui_inv_def)
next
  case True
  let ?s1 = "s\<lparr>placeholder := map_option (\<lambda>p. p\<lparr>ph_display := ''none''\<rparr>) (placeholder s)\<rparr>"
  let ?found = "case vm_enum a visemesPropertyName of
                  None \<Rightarrow> vm_enum a (''viseme/'' @ visemesPropertyName) | Some v \<Rightarrow> Some v"
  let ?s2 = "?s1\<lparr>visemeProperty := ?found\<rparr>"
  show ?thesis
  proof (cases ?found)
    case None
    let ?s3 = "?s2\<lparr>console := console ?s2 @ [(LogWarn, [''visemes property not found on View Model''])]\<rparr>"
    have "ui_inv ?s3" using assms by (simp add: ui_inv_def)
    then have "ui_inv (after (hide_sections ?s3))" by (rule ui_inv_hide)
    with True None show ?thesis by (simp add: setupViewModelControls_def Let_def)
  next
    case (Some v)
    have c: "ui_inv (after (createEnumControl ''visemes'' phonemesEnumName a ?s2))"
      using assms Some by (intro createEnumControl_ui) simp_all
    show ?thesis
    proof (cases "createEnumControl ''visemes'' phonemesEnumName a ?s2")
      case (Inl e)
      with c True Some show ?thesis
        by (cases e) (simp add: setupViewModelControls_def Let_def)
    next
      case (Inr s3)
      with c have "ui_inv s3" by simp
      then have "ui_inv (after (hide_sections s3))" by (rule ui_inv_hide)
      with True Some Inr show ?thesis by (simp add: setupViewModelControls_def Let_def)
    qed
  qed
qed

lemma ui_inv_load: "ui_inv (after (onLoad a (initRive pg (init_state pg))))"
proof -
  let ?s1 = "(initRive pg (init_state pg))\<lparr>viewModelInstance := has_view_model a\<rparr>"
  have b: "buttons ?s1 = []" and c: "currentEnumValues ?s1 = []"
    by (simp_all add: init_state_def initRive_def)
  show ?thesis
  proof (cases "has_view_model a")
    case True
    with ui_inv_setup[OF b c, of a] show ?thesis by (simp add: onLoad_def Let_def)
  next
    case False
    with b c show ?thesis by (simp add: onLoad_def Let_def ui_inv_def)
  qed
qed

lemma timer_inv_error: "timer_inv (onLoadError cause (initRive pg (init_state pg)))"
  by (simp add: timer_inv_def onLoadError_def init_state_def initRive_def)

lemma ui_inv_error: "ui_inv (onLoadError cause (initRive pg (init_state pg)))"
  by (simp add: ui_inv_def onLoadError_def init_state_def initRive_def)

lemma reachable_timer_inv: "reachable s \<Longrightarrow> timer_inv s"
proof (induction rule: reachable.induct)
  case (r_step s e)
  then show ?case
    by (cases e) (simp_all add: timer_inv_keydown timer_inv_click timer_inv_elapse)
qed (simp_all add: timer_inv_init timer_inv_start timer_inv_load timer_inv_error)

lemma reachable_ui_inv: "reachable s \<Longrightarrow> ui_inv s"
proof (induction rule: reachable.induct)
  case (r_step s e)
  then show ?case
    by (cases e) (simp_all add: ui_inv_keydown ui_inv_click ui_inv_elapse)
qed (simp_all add: ui_inv_init ui_inv_start ui_inv_load ui_inv_error)

section \<open>Lemmas for the claims\<close>

lemmas parse_defs = parseInt_def strip_sign_def strip_prefix_def ws_len_def ascii_ws_def wide_ws_def digit_val_def

lemmas load_defs = scenario_loaded_def scenario_asset_def labels_asset_def scenario_page_def init_state_def
  initRive_def onLoad_def setupViewModelControls_def createEnumControl_def hide_sections_def Let_def
  section_of_def visemesPropertyName_def phonemesEnumName_def find_enum_values_def toLowerCase_def
  lower_char_def make_buttons_def make_button_def

lemmas event_defs = keydown_def cancel_reset_def apply_viseme_def schedule_reset_def setTimeout_def
  clearTimeout_def updateVisemeUI_def updateCurrentDisplay_def elapse_def resetVisemeToNone_def
  RESET_DELAY_MS_def click_def

lemma reachable_scenario_loaded: "reachable (scenario_loaded v0)"
  unfolding scenario_loaded_def by (rule r_load) (simp add: scenario_page_def)

lemma reachable_scenario_held: "reachable scenario_held"
  unfolding scenario_held_def using r_step[OF reachable_scenario_loaded, of "KeyDown ''2''" "''none''"] by simp

lemma elapse_handles: "set (pending_handles (elapse d s)) \<subseteq> set (pending_handles s)"
  by (auto simp add: pending_handles_def elapse_def Let_def fold_reset_frame)

lemma keydown_in_range:
  assumes "parseInt key = Some n" "1 \<le> n" "n \<le> 9" "nat (n - 1) < length (currentEnumValues s)"
    and "visemeProperty s \<noteq> None"
  shows "keydown key s = schedule_reset (apply_viseme (currentEnumValues s ! nat (n - 1)) (cancel_reset s))"
  using assms by (auto simp add: keydown_def Let_def cancel_reset_frame)

lemma fold_reset_id:
  "''none'' \<notin> set (currentEnumValues s) \<Longrightarrow> fold (\<lambda>t. resetVisemeToNone) ts s = s"
  by (induction ts) (simp_all add: resetVisemeToNone_def)

lemma click_active:
  assumes "i < length (buttons s)" and "j < length (buttons s)"
  shows "active (buttons (click i s) ! j) \<longleftrightarrow> j = i"
  using assms by (simp add: click_def Let_def updateCurrentDisplay_frame nth_list_update)

lemma click_readout:
  assumes "i < length (buttons s)" and "currentValueDisplay s = Some d" and "elt_id d = ''current-visemes''"
  shows "readout (click i s) = Some (display_html (dataset_value (buttons s ! i)))"
  using assms by (simp add: click_def Let_def readout_def updateCurrentDisplay_def)

lemma helpers_skip_unknown_name:
  assumes "stateMachineInputs s = Some inputs" and "\<forall>i \<in> set inputs. input_name i \<noteq> inputName"
  shows "triggerInput inputName s = Inr s" and "setBooleanInput inputName v s = Inr s"
    and "setNumberInput inputName v s = Inr s"
proof -
  from assms(2) have "find (\<lambda>i. input_name i = inputName) inputs = None"
    by (simp add: find_None_iff)
  with assms(1) show "triggerInput inputName s = Inr s" and "setBooleanInput inputName v s = Inr s"
    and "setNumberInput inputName v s = Inr s"
    by (simp_all add: triggerInput_def setBooleanInput_def setNumberInput_def)
qed

text \<open>The key-press path: cancel, apply, schedule.\<close>

lemma keypress_replaces_reset:
  assumes "reachable s" and "parseInt key = Some n" and "1 \<le> n" and "n \<le> 9"
    and "nat (n - 1) < length (currentEnumValues s)"
  shows "keydown key s = schedule_reset (apply_viseme (currentEnumValues s ! nat (n - 1)) (cancel_reset s)) \<and>
         timers (cancel_reset s) = [] \<and>
         timers (keydown key s) = [(nextTimerId s, 1000)] \<and>
         resetTimer (keydown key s) = Some (nextTimerId s) \<and>
         visemeProperty (keydown key s) = Some (currentEnumValues s ! nat (n - 1))"
proof -
  from assms(1) have ti: "timer_inv s" and ui: "ui_inv s"
    by (simp_all add: reachable_timer_inv reachable_ui_inv)
  from assms(5) have "currentEnumValues s \<noteq> []" by auto
  with ui have vp: "visemeProperty s \<noteq> None" by (simp add: ui_inv_def)
  have k: "keydown key s = schedule_reset (apply_viseme (currentEnumValues s ! nat (n - 1)) (cancel_reset s))"
    using assms(2-5) vp by (rule keydown_in_range)
  have c: "timers (cancel_reset s) = []" using ti by (rule cancel_reset_clears)
  show ?thesis
    unfolding k using c
    by (simp add: schedule_reset_timers apply_viseme_frame cancel_reset_frame RESET_DELAY_MS_def)
qed

subsection \<open>Markup and shown text\<close>

lemma text_content_plain_prefix:
  "plain v \<Longrightarrow> text_content (v @ r) = map_option ((@) v) (text_content r)"
proof (induction v)
  case Nil
  show ?case by (cases "text_content r") simp_all
next
  case (Cons c v)
  then have "plain v" and c: "c \<noteq> CHR ''<''" "c \<noteq> CHR ''&''" "c \<noteq> CHR 0x00" "c \<noteq> CHR 0x0D"
    by (simp_all add: plain_def)
  with Cons.IH have "text_content (v @ r) = map_option ((@) v) (text_content r)" by simp
  with c show ?case by (cases "text_content r") simp_all
qed

lemma text_content_plain: "plain v \<Longrightarrow> text_content v = Some v"
  using text_content_plain_prefix[of v "[]"] by simp

lemma display_text:
  assumes "plain v"
  shows "text_content (display_html v) = Some (''Current: '' @ v)"
proof -
  have e: "text_content ''</span>'' = Some []" by code_simp
  have "text_content (v @ ''</span>'') = map_option ((@) v) (text_content ''</span>'')"
    using assms by (rule text_content_plain_prefix)
  then have "text_content (v @ ''</span>'') = Some v"
    by (simp only: e option.map append_Nil2)
  then show ?thesis
    by (simp add: display_html_def ok_tag_def inline_names_def)
qed

lemma btn_text_make: "b \<in> set (make_buttons c vs) \<Longrightarrow> btn_text b = dataset_value b"
  by (auto simp add: make_buttons_def make_button_def)

lemma text_inv_UI: "text_inv s \<Longrightarrow> text_inv (updateVisemeUI v s)"
  by (simp add: text_inv_def updateVisemeUI_def Let_def updateCurrentDisplay_frame o_def)

lemma text_inv_reset: "text_inv s \<Longrightarrow> text_inv (resetVisemeToNone s)"
proof -
  assume a: "text_inv s"
  then have "text_inv (s\<lparr>visemeProperty := Some ''none''\<rparr>)" by (simp add: text_inv_def)
  then have "text_inv (updateVisemeUI ''none'' (s\<lparr>visemeProperty := Some ''none''\<rparr>))"
    by (rule text_inv_UI)
  with a show ?thesis by (simp add: resetVisemeToNone_def)
qed

lemma text_inv_fold: "text_inv s \<Longrightarrow> text_inv (fold (\<lambda>t. resetVisemeToNone) ts s)"
  by (induction ts arbitrary: s) (simp_all add: text_inv_reset)

lemma text_inv_elapse: "text_inv s \<Longrightarrow> text_inv (elapse d s)"
proof -
  assume "text_inv s"
  then have "text_inv (s\<lparr>timers := t\<rparr>)" for t by (simp add: text_inv_def)
  then show ?thesis unfolding elapse_def Let_def by (rule text_inv_fold)
qed

lemma text_inv_keydown:
  assumes "text_inv s"
  shows "text_inv (keydown key s)"
proof -
  have c: "text_inv (cancel_reset s)" using assms by (simp add: text_inv_def cancel_reset_frame)
  have "text_inv (schedule_reset (apply_viseme v (cancel_reset s)))" for v
  proof -
    from c have "text_inv ((cancel_reset s)\<lparr>visemeProperty := Some v\<rparr>)" by (simp add: text_inv_def)
    then have "text_inv (apply_viseme v (cancel_reset s))"
      unfolding apply_viseme_def by (rule text_inv_UI)
    then show ?thesis by (simp add: text_inv_def schedule_reset_timers)
  qed
  with c assms keydown_cases[of key s] show ?thesis by auto
qed

lemma click_btn_text: "map btn_text (buttons (click i s)) = map btn_text (buttons s)"
  by (simp add: click_def Let_def updateCurrentDisplay_frame o_def map_update map_update_same)

lemma text_inv_click: "text_inv s \<Longrightarrow> text_inv (click i s)"
  by (simp add: text_inv_def click_btn_text click_frame)

lemma text_inv_hide: "text_inv s \<Longrightarrow> text_inv (after (hide_sections s))"
  by (simp add: text_inv_def hide_sections_frame)

lemma text_inv_create: "buttons s = [] \<Longrightarrow> text_inv (after (createEnumControl n e a s))"
  by (simp add: createEnumControl_def Let_def text_inv_def btn_text_make)

lemma text_inv_setup:
  assumes "buttons s = []"
  shows "text_inv (after (setupViewModelControls a s))"
proof (cases "viewModelInstance s")
  case False
  with assms show ?thesis by (simp add: setupViewModelControls_def text_inv_def)
next
  case True
  let ?s1 = "s\<lparr>placeholder := map_option (\<lambda>p. p\<lparr>ph_display := ''none''\<rparr>) (placeholder s)\<rparr>"
  let ?found = "case vm_enum a visemesPropertyName of
                  None \<Rightarrow> vm_enum a (''viseme/'' @ visemesPropertyName) | Some v \<Rightarrow> Some v"
  let ?s2 = "?s1\<lparr>visemeProperty := ?found\<rparr>"
  show ?thesis
  proof (cases ?found)
    case None
    let ?s3 = "?s2\<lparr>console := console ?s2 @ [(LogWarn, [''visemes property not found on View Model''])]\<rparr>"
    have "text_inv ?s3" using assms by (simp add: text_inv_def)
    then have "text_inv (after (hide_sections ?s3))" by (rule text_inv_hide)
    with True None show ?thesis by (simp add: setupViewModelControls_def Let_def)
  next
    case (Some v)
    have c: "text_inv (after (createEnumControl ''visemes'' phonemesEnumName a ?s2))"
      using assms by (intro text_inv_create) simp
    show ?thesis
    proof (cases "createEnumControl ''visemes'' phonemesEnumName a ?s2")
      case (Inl e)
      with c True Some show ?thesis
        by (cases e) (simp add: setupViewModelControls_def Let_def)
    next
      case (Inr s3)
      with c have "text_inv s3" by simp
      then have "text_inv (after (hide_sections s3))" by (rule text_inv_hide)
      with True Some Inr show ?thesis by (simp add: setupViewModelControls_def Let_def)
    qed
  qed
qed

lemma text_inv_load: "text_inv (after (onLoad a (initRive pg (init_state pg))))"
proof -
  let ?s1 = "(initRive pg (init_state pg))\<lparr>viewModelInstance := has_view_model a\<rparr>"
  have b: "buttons ?s1 = []" by (simp add: init_state_def initRive_def)
  show ?thesis
  proof (cases "has_view_model a")
    case True
    with text_inv_setup[OF b, of a] show ?thesis by (simp add: onLoad_def Let_def)
  next
    case False
    with b show ?thesis by (simp add: onLoad_def Let_def text_inv_def)
  qed
qed

lemma reachable_text_inv: "reachable s \<Longrightarrow> text_inv s"
proof (induction rule: reachable.induct)
  case (r_step s e)
  then show ?case
    by (cases e) (simp_all add: text_inv_keydown text_inv_click text_inv_elapse)
qed (simp_all add: text_inv_load, simp_all add: text_inv_def init_state_def initRive_def onLoadError_def)

lemma click_marks:
  assumes "i < length (buttons s)"
  shows "map active (buttons (click i s)) = map (\<lambda>j. j = i) [0 ..< length (buttons s)]"
proof (rule nth_equalityI)
  show "length (map active (buttons (click i s))) = length (map (\<lambda>j. j = i) [0 ..< length (buttons s)])"
    by (simp add: click_frame)
next
  fix j
  assume "j < length (map active (buttons (click i s)))"
  then have j: "j < length (buttons s)" by (simp add: click_frame)
  then show "map active (buttons (click i s)) ! j = map (\<lambda>j. j = i) [0 ..< length (buttons s)] ! j"
    using click_active[OF assms j] by (simp add: click_frame)
qed

lemma click_display:
  assumes "i < length (buttons s)" and "currentValueDisplay s = Some d" and "elt_id d = ''current-visemes''"
  shows "currentValueDisplay (click i s) = Some (d\<lparr>innerHTML := display_html (dataset_value (buttons s ! i))\<rparr>)"
  using assms by (simp add: click_def Let_def updateCurrentDisplay_def)

subsection \<open>Number controls\<close>








section \<open>The claims\<close>

subsection \<open>C1: number keys\<close>

text \<open>
  C1 says that a key whose index is not below the number of labels is a no-op that also
  leaves a pending reset task alone. The listener cancels the pending task before it
  compares the index with the number of labels. In the scenario, key 2 holds AA with one
  reset pending; key 7 then leaves no task pending and clears the handle, so AA is still
  held after 1000 ms, while without key 7 the value is back to none by then.
\<close>

theorem out_of_range_key_cancels_reset:
  "pending_handles scenario_held = [1] \<and> resetTimer scenario_held = Some 1 \<and>
   visemeProperty scenario_held = Some ''AA'' \<and>
   visemeProperty (elapse 1000 scenario_held) = Some ''none'' \<and>
   pending_handles (keydown ''7'' scenario_held) = [] \<and>
   resetTimer (keydown ''7'' scenario_held) = None \<and>
   visemeProperty (elapse 1000 (keydown ''7'' scenario_held)) = Some ''AA''"
  unfolding scenario_held_def pending_handles_def by code_simp

subsection \<open>C2: replacing the pending reset\<close>

text \<open>
  C2 says that a button activation while a value is held cancels the pending reset and
  schedules a fresh one of 1000 ms, as a key press does. The click listener touches no
  timer. In the scenario, 400 ms after key 2 the click on the fourth button leaves the
  old task pending with its 600 ms and schedules nothing, so the clicked value O is
  reset to none 600 ms after the click; and a click with no task pending schedules none,
  so O is still held 5000 ms later.
\<close>

theorem click_leaves_reset_timer_alone:
  "timers scenario_held = [(1, 1000)] \<and>
   timers scenario_clicked = [(1, 600)] \<and>
   resetTimer scenario_clicked = Some 1 \<and>
   visemeProperty scenario_clicked = Some ''O'' \<and>
   visemeProperty (elapse 600 scenario_clicked) = Some ''none'' \<and>
   timers (click 3 (scenario_loaded ''none'')) = [] \<and>
   visemeProperty (elapse 5000 (click 3 (scenario_loaded ''none''))) = Some ''O''"
  unfolding scenario_clicked_def scenario_held_def by code_simp

subsection \<open>C3: the scenario\<close>

text \<open>
  C3 as stated: with labels none, AA, E, O, key 2 would set the value and the readout to
  E. Key 2 selects the second label, AA.
\<close>

theorem key_two_is_not_E_counterexample:
  "visemeProperty (keydown ''2'' (scenario_loaded ''none'')) = Some ''AA'' \<and>
   visemeProperty (keydown ''2'' (scenario_loaded ''none'')) \<noteq> Some ''E'' \<and>
   readout (keydown ''2'' (scenario_loaded ''none'')) \<noteq> Some (display_html ''E'')"
  unfolding readout_def by code_simp

text \<open>
  C3, amended: after the load with labels none, AA, E, O, whatever the property held
  before, key 2 sets the value to AA, the readout shows AA and the second button alone is
  active; 999 ms later AA is still held; after 1000 ms with no further input the value is
  none and the readout shows none. E is on key 3.
\<close>

theorem scenario_key_two_then_reset:
  "visemeProperty (keydown ''2'' (scenario_loaded v0)) = Some ''AA'' \<and>
   readout (keydown ''2'' (scenario_loaded v0)) = Some (display_html ''AA'') \<and>
   map active (buttons (keydown ''2'' (scenario_loaded v0))) = [False, True, False, False] \<and>
   visemeProperty (elapse 999 (keydown ''2'' (scenario_loaded v0))) = Some ''AA'' \<and>
   visemeProperty (elapse 1000 (keydown ''2'' (scenario_loaded v0))) = Some ''none'' \<and>
   readout (elapse 1000 (keydown ''2'' (scenario_loaded v0))) = Some (display_html ''none'') \<and>
   visemeProperty (keydown ''3'' (scenario_loaded v0)) = Some ''E''"
  by (simp add: readout_def load_defs event_defs parse_defs)

theorem scenario_key_two_then_reset_witness:
  "visemeProperty (keydown ''2'' (scenario_loaded ''O'')) = Some ''AA'' \<and>
   visemeProperty (elapse 1000 (keydown ''2'' (scenario_loaded ''O''))) = Some ''none'' \<and>
   readout (elapse 1000 (keydown ''2'' (scenario_loaded ''O''))) = Some (display_html ''none'')"
  using scenario_key_two_then_reset[of "''O''"] by blast

subsection \<open>C4: at most one reset task\<close>

text \<open>
  C4: in every reachable state at most one reset task is pending, and every event either
  adds no handle to the pending ones, or is a key press that runs as cancel, then apply,
  then schedule, where no task is pending after the cancel and the fresh task is the only
  one pending afterwards.
\<close>

theorem at_most_one_reset_task:
  assumes "reachable s"
  shows "length (timers s) \<le> 1 \<and>
         (\<forall>e. set (pending_handles (step e s)) \<subseteq> set (pending_handles s) \<or>
               (\<exists>v. step e s = schedule_reset (apply_viseme v (cancel_reset s)) \<and>
                    timers (cancel_reset s) = [] \<and>
                    pending_handles (step e s) = [nextTimerId s]))"
proof (intro conjI allI)
  from assms have ti: "timer_inv s" by (rule reachable_timer_inv)
  then show "length (timers s) \<le> 1" by (simp add: timer_inv_def)
  have c: "timers (cancel_reset s) = []" using ti by (rule cancel_reset_clears)
  fix e
  show "set (pending_handles (step e s)) \<subseteq> set (pending_handles s) \<or>
        (\<exists>v. step e s = schedule_reset (apply_viseme v (cancel_reset s)) \<and>
             timers (cancel_reset s) = [] \<and>
             pending_handles (step e s) = [nextTimerId s])"
  proof (cases e)
    case (KeyDown key)
    consider "keydown key s = s" | "keydown key s = cancel_reset s"
      | v where "keydown key s = schedule_reset (apply_viseme v (cancel_reset s))"
      using keydown_cases[of key s] by blast
    then show ?thesis
    proof cases
      case 1 with KeyDown show ?thesis by simp
    next
      case 2 with KeyDown c show ?thesis by (simp add: pending_handles_def)
    next
      case 3
      with KeyDown c show ?thesis
        by (auto simp add: pending_handles_def schedule_reset_timers apply_viseme_frame cancel_reset_frame)
    qed
  next
    case (Click i)
    then show ?thesis by (simp add: pending_handles_def click_frame)
  next
    case (Elapse d)
    then show ?thesis using elapse_handles[of d s] by simp
  qed
qed

theorem at_most_one_reset_task_witness:
  "reachable scenario_held \<and> timers scenario_held = [(1, 1000)] \<and>
   length (timers scenario_held) \<le> 1 \<and>
   pending_handles (step (KeyDown ''3'') scenario_held) = [2] \<and>
   length (timers (step (KeyDown ''3'') scenario_held)) \<le> 1"
proof -
  have t: "timers scenario_held = [(1, 1000)]"
    and k: "pending_handles (step (KeyDown ''3'') scenario_held) = [2]"
    unfolding scenario_held_def pending_handles_def by code_simp+
  have r: "reachable (step (KeyDown ''3'') scenario_held)"
    using reachable_scenario_held by (rule r_step)
  show ?thesis
    using at_most_one_reset_task[OF reachable_scenario_held] at_most_one_reset_task[OF r]
      reachable_scenario_held t k
    by blast
qed

subsection \<open>C5: load failure\<close>

text \<open>
  C5 as stated, for the viseme variant: a load failure would replace the placeholder text
  by an error message. Its error callback only writes to the console; the placeholder
  keeps the text of the page.
\<close>

theorem viseme_load_error_keeps_placeholder_counterexample:
  "placeholder (onLoadError ''404'' (initRive scenario_page (init_state scenario_page))) =
     Some \<lparr> ph_innerHTML = ''Loading animation...'', ph_display = [], ph_color = [] \<rparr> \<and>
   placeholder (onLoadError ''404'' (initRive scenario_page (init_state scenario_page))) =
     placeholder (initRive scenario_page (init_state scenario_page))"
  by (simp add: onLoadError_def initRive_def init_state_def scenario_page_def)

text \<open>
  C5, amended: on a load failure both variants log the cause, start no further load and
  return normally. The viseme variant changes nothing but the console. The generic
  variant also replaces the markup and the colour of the placeholder, when the page has
  one, and leaves the list of inputs alone.
\<close>

theorem load_failure_logged_and_shown_by_generic_variant:
  "onLoadError cause s = s\<lparr>console := console s @ [(LogError, [''Error loading Rive file:'', cause])]\<rparr> \<and>
   placeholder (onLoadError cause s) = placeholder s \<and>
   loads_started (onLoadError cause s) = loads_started s \<and>
   g_console (g_onLoadError cause t) = g_console t @ [(LogError, [''Error loading Rive file:'', cause])] \<and>
   g_placeholder (g_onLoadError cause t) =
     map_option (\<lambda>p. p\<lparr>ph_innerHTML := load_error_html, ph_color := ''#ff6b6b''\<rparr>) (g_placeholder t) \<and>
   g_loads_started (g_onLoadError cause t) = g_loads_started t \<and>
   stateMachineInputs (g_onLoadError cause t) = stateMachineInputs t"
  by (simp add: onLoadError_def g_onLoadError_def showLoadError_def glog_def)

theorem load_failure_logged_and_shown_by_generic_variant_witness:
  "console (onLoadError ''404'' (initRive scenario_page (init_state scenario_page))) =
     [(LogError, [''Error loading Rive file:'', ''404''])] \<and>
   g_console (g_onLoadError ''404'' (g_initRive generic_page None (g_init_state generic_page :: bool gstate))) =
     [(LogError, [''Error loading Rive file:'', ''404''])] \<and>
   g_placeholder (g_onLoadError ''404'' (g_initRive generic_page None (g_init_state generic_page :: bool gstate))) =
     Some \<lparr> ph_innerHTML = load_error_html, ph_display = [], ph_color = ''#ff6b6b'' \<rparr> \<and>
   g_loads_started (g_onLoadError ''404'' (g_initRive generic_page None (g_init_state generic_page :: bool gstate))) = 1"
  using load_failure_logged_and_shown_by_generic_variant
          [of "''404''" "initRive scenario_page (init_state scenario_page)"
              "g_initRive generic_page None (g_init_state generic_page :: bool gstate)"]
  by (simp add: initRive_def init_state_def scenario_page_def g_initRive_def g_init_state_def generic_page_def)

subsection \<open>C6: reset without the label none\<close>

text \<open>
  C6: when none is not among the labels, the reset task changes nothing when it fires:
  \<^verbatim>\<open>resetVisemeToNone\<close> returns the state as it is, and letting any time pass leaves the
  value, the readout and the buttons as they were.
\<close>

theorem reset_without_none_keeps_value:
  assumes "''none'' \<notin> set (currentEnumValues s)"
  shows "resetVisemeToNone s = s \<and>
         visemeProperty (elapse d s) = visemeProperty s \<and>
         currentValueDisplay (elapse d s) = currentValueDisplay s \<and>
         buttons (elapse d s) = buttons s"
proof -
  have "resetVisemeToNone s = s" using assms by (simp add: resetVisemeToNone_def)
  moreover have "elapse d s = s\<lparr>timers := map (\<lambda>t. (fst t, snd t - d)) (filter (\<lambda>t. d < snd t) (timers s))\<rparr>"
    using assms by (simp add: elapse_def Let_def fold_reset_id)
  ultimately show ?thesis by simp
qed

theorem reset_without_none_keeps_value_witness:
  "''none'' \<notin> set (currentEnumValues no_none_held) \<and>
   resetVisemeToNone no_none_held = no_none_held \<and>
   timers no_none_held = [(1, 1000)] \<and>
   timers (elapse 1000 no_none_held) = [] \<and>
   visemeProperty (elapse 1000 no_none_held) = Some ''AA'' \<and>
   currentValueDisplay (elapse 1000 no_none_held) = currentValueDisplay no_none_held \<and>
   buttons (elapse 1000 no_none_held) = buttons no_none_held"
proof -
  have l: "currentEnumValues no_none_held = [''AA'', ''E'']"
    and v: "visemeProperty no_none_held = Some ''AA''"
    and t: "timers no_none_held = [(1, 1000)]" "timers (elapse 1000 no_none_held) = []"
    unfolding no_none_held_def by code_simp+
  have h: "''none'' \<notin> set (currentEnumValues no_none_held)" by (simp add: l)
  show ?thesis
    using reset_without_none_keeps_value[OF h, of 1000] h v t by simp
qed

subsection \<open>C7: button activation\<close>

text \<open>
  C7 as stated, for every label: the label is spliced into the readout as markup, so a
  label that carries markup is not what the readout shows. With the label
  \<^verbatim>\<open><i>x</i>\<close>, the click sets the value to the label and the readout shows x.
\<close>

theorem markup_label_not_shown_counterexample:
  "currentEnumValues markup_loaded = [''none'', ''<i>x</i>''] \<and>
   dataset_value (buttons markup_loaded ! 1) = ''<i>x</i>'' \<and>
   visemeProperty (click 1 markup_loaded) = Some ''<i>x</i>'' \<and>
   readout_text (click 1 markup_loaded) = Some ''Current: x'' \<and>
   readout_text (click 1 markup_loaded) \<noteq> Some (''Current: '' @ ''<i>x</i>'')"
  unfolding markup_loaded_def readout_text_def by code_simp

text \<open>
  C7, amended: in every reachable state whose labels are all plain, clicking the button
  at position \<open>i\<close>, which carries the \<open>i\<close>-th declared label, sets the value to that
  label, makes the readout hold the template with that label and show that label, and
  leaves exactly that button active, among the buttons built and among all elements of
  the container that count as enum buttons.
\<close>

theorem click_marks_exactly_one_button:
  assumes "reachable s" and "i < length (buttons s)" and "list_all plain (currentEnumValues s)"
  shows "dataset_value (buttons s ! i) = currentEnumValues s ! i \<and>
         visemeProperty (click i s) = Some (currentEnumValues s ! i) \<and>
         readout (click i s) = Some (display_html (currentEnumValues s ! i)) \<and>
         readout_text (click i s) = Some (''Current: '' @ currentEnumValues s ! i) \<and>
         map dataset_value (buttons (click i s)) = currentEnumValues s \<and>
         (\<forall>j < length (buttons (click i s)). active (buttons (click i s) ! j) \<longleftrightarrow> j = i) \<and>
         enum_button_marks (click i s) = Some (map (\<lambda>j. j = i) [0 ..< length (buttons s)])"
proof -
  from assms(1) have ui: "ui_inv s" and ti: "text_inv s"
    by (simp_all add: reachable_ui_inv reachable_text_inv)
  from assms(2) have pos: "0 < length (buttons s)" by (cases "buttons s") simp_all
  with ui have m: "map dataset_value (buttons s) = currentEnumValues s"
    and "\<exists>d. currentValueDisplay s = Some d \<and> elt_id d = ''current-visemes''"
    by (simp_all add: ui_inv_def)
  then obtain d where d: "currentValueDisplay s = Some d" "elt_id d = ''current-visemes''" by blast
  have "dataset_value (buttons s ! i) = map dataset_value (buttons s) ! i"
    using assms(2) by simp
  then have x: "dataset_value (buttons s ! i) = currentEnumValues s ! i" by (simp add: m)
  have len: "i < length (currentEnumValues s)" using assms(2) m by (metis length_map)
  with assms(3) have px: "plain (currentEnumValues s ! i)" by (simp add: list_all_length)
  have disp: "currentValueDisplay (click i s) = Some (d\<lparr>innerHTML := display_html (currentEnumValues s ! i)\<rparr>)"
    using click_display[OF assms(2) d] by (simp add: x)
  have rt: "readout_text (click i s) = Some (''Current: '' @ currentEnumValues s ! i)"
    by (simp add: readout_text_def disp display_text[OF px])
  have bt: "map btn_text (buttons (click i s)) = currentEnumValues s"
    using ti m by (simp add: click_btn_text text_inv_def)
  have "list_all (\<lambda>v. text_content v \<noteq> None) (map btn_text (buttons (click i s)))"
    unfolding bt using assms(3) by (simp add: list_all_iff text_content_plain)
  then have ok: "list_all (\<lambda>b. text_content (btn_text b) \<noteq> None) (buttons (click i s))"
    by (simp add: list_all_iff)
  have marks: "enum_button_marks (click i s) = Some (map (\<lambda>j. j = i) [0 ..< length (buttons s)])"
    using ok rt by (simp add: enum_button_marks_def disp readout_text_def click_marks[OF assms(2)])
  show ?thesis
    using x click_value[OF assms(2)] click_readout[OF assms(2) d] m click_active[OF assms(2)] rt marks
    by (simp add: click_frame)
qed

theorem click_marks_exactly_one_button_witness:
  "reachable scenario_held \<and> 2 < length (buttons scenario_held) \<and>
   list_all plain (currentEnumValues scenario_held) \<and>
   map active (buttons scenario_held) = [False, True, False, False] \<and>
   visemeProperty (click 2 scenario_held) = Some ''E'' \<and>
   readout (click 2 scenario_held) = Some (display_html ''E'') \<and>
   readout_text (click 2 scenario_held) = Some ''Current: E'' \<and>
   map dataset_value (buttons (click 2 scenario_held)) = [''none'', ''AA'', ''E'', ''O''] \<and>
   \<not> active (buttons (click 2 scenario_held) ! 0) \<and>
   \<not> active (buttons (click 2 scenario_held) ! 1) \<and>
   active (buttons (click 2 scenario_held) ! 2) \<and>
   \<not> active (buttons (click 2 scenario_held) ! 3) \<and>
   enum_button_marks (click 2 scenario_held) = Some [False, False, True, False]"
proof -
  have l: "currentEnumValues scenario_held = [''none'', ''AA'', ''E'', ''O'']"
    and b: "length (buttons scenario_held) = 4"
    and a: "map active (buttons scenario_held) = [False, True, False, False]"
    unfolding scenario_held_def by code_simp+
  have i: "2 < length (buttons scenario_held)" by (simp add: b)
  have p: "list_all plain (currentEnumValues scenario_held)" by (simp add: l plain_def)
  have n: "length (buttons (click 2 scenario_held)) = 4" by (simp add: click_frame b)
  have u: "map (\<lambda>j. j = 2) [0 ..< length (buttons scenario_held)] = [False, False, True, False]"
    unfolding b by code_simp
  note th = click_marks_exactly_one_button[OF reachable_scenario_held i p]
  from th have v: "visemeProperty (click 2 scenario_held) = Some (currentEnumValues scenario_held ! 2)"
    and r: "readout (click 2 scenario_held) = Some (display_html (currentEnumValues scenario_held ! 2))"
    and rt: "readout_text (click 2 scenario_held) = Some (''Current: '' @ currentEnumValues scenario_held ! 2)"
    and m: "map dataset_value (buttons (click 2 scenario_held)) = currentEnumValues scenario_held"
    and q: "\<forall>j < length (buttons (click 2 scenario_held)).
              active (buttons (click 2 scenario_held) ! j) \<longleftrightarrow> j = 2"
    and k: "enum_button_marks (click 2 scenario_held) =
              Some (map (\<lambda>j. j = 2) [0 ..< length (buttons scenario_held)])"
    by blast+
  from q n have "\<not> active (buttons (click 2 scenario_held) ! 0)"
    "\<not> active (buttons (click 2 scenario_held) ! 1)"
    "active (buttons (click 2 scenario_held) ! 2)"
    "\<not> active (buttons (click 2 scenario_held) ! 3)"
    by simp_all
  with v r rt m k reachable_scenario_held i p a show ?thesis by (simp add: l u)
qed

subsection \<open>C8: number controls\<close>




subsection \<open>C9: helpers and unknown names\<close>

text \<open>
  C9 says that the exported helpers return silently for a name no input has. When the
  runtime returned no list of inputs, \<^verbatim>\<open>setupControls\<close> has stored that in
  \<open>stateMachineInputs\<close>, no name matches, and each helper throws a TypeError.
\<close>

theorem helpers_throw_without_input_list:
  "stateMachineInputs no_machine_loaded = None \<and>
   triggerInput ''jump'' no_machine_loaded = Inl TypeError \<and>
   setBooleanInput ''jump'' True no_machine_loaded = Inl TypeError \<and>
   setNumberInput ''jump'' True no_machine_loaded = Inl TypeError"
  by (simp add: no_machine_loaded_def g_onLoad_def setupControls_def g_initRive_def g_init_state_def
        generic_page_def glog_def triggerInput_def setBooleanInput_def setNumberInput_def)

subsection \<open>C10: other keys\<close>

text \<open>
  C10: a key that \<^verbatim>\<open>parseInt\<close> does not turn into a number from 1 to 9 changes nothing:
  the state after the listener is the state before, pending reset included.
\<close>

theorem keydown_ignores_other_keys:
  assumes "\<forall>n. parseInt key = Some n \<longrightarrow> n < 1 \<or> 9 < n"
  shows "keydown key s = s"
  using assms by (auto simp: keydown_def split: option.splits)

theorem keydown_ignores_other_keys_witness:
  "parseInt ''0'' = Some 0 \<and> keydown ''0'' scenario_held = scenario_held \<and>
   parseInt ''F5'' = None \<and> keydown ''F5'' scenario_held = scenario_held \<and>
   timers scenario_held = [(1, 1000)]"
proof -
  have p0: "parseInt ''0'' = Some 0" and p5: "parseInt ''F5'' = None"
    by (simp_all add: parse_defs)
  have zero: "\<forall>n. parseInt ''0'' = Some n \<longrightarrow> n < 1 \<or> 9 < n" by (simp add: p0)
  have f5: "\<forall>n. parseInt ''F5'' = Some n \<longrightarrow> n < 1 \<or> 9 < n" by (simp add: p5)
  have t: "timers scenario_held = [(1, 1000)]"
    unfolding scenario_held_def by code_simp
  show ?thesis
    using p0 p5 t keydown_ignores_other_keys[OF zero, of scenario_held]
      keydown_ignores_other_keys[OF f5, of scenario_held]
    by simp
qed

end
